theory Spec2Isabelle
  imports Complex_Main
begin

section \<open>Python values used by the embedding\<close>

text \<open>
  Python integers are unbounded and are modelled by \<^typ>\<open>int\<close>. Readings of
  \<^verbatim>\<open>time.time()\<close> are seconds since the epoch; they are modelled by \<^typ>\<open>real\<close> and
  every reading the source takes is an explicit argument of the function that takes it.
  Timestamps produced by \<^verbatim>\<open>datetime.utcnow().isoformat()\<close> are opaque strings handed in by
  the caller of the model.
\<close>

text \<open>\<^verbatim>\<open>str(n)\<close> for an integer, as used by the f-strings of the source.\<close>

fun digits :: "nat \<Rightarrow> string" where
  "digits n =
     (if n < 10 then [''0123456789'' ! n]
      else digits (n div 10) @ [''0123456789'' ! (n mod 10)])"

declare digits.simps [simp del]

definition str_int :: "int \<Rightarrow> string" where
  "str_int i = (if i < 0 then CHR ''-'' # digits (nat (- i)) else digits (nat i))"

text \<open>\<^verbatim>\<open>int(x)\<close> for a float truncates towards zero.\<close>

definition int_of_float :: "real \<Rightarrow> int" where
  "int_of_float x = (if 0 \<le> x then \<lfloor>x\<rfloor> else \<lceil>x\<rceil>)"

section \<open>reliability.py: ReliabilityMonitor\<close>

text \<open>
  The three thresholds are attributes assigned once in \<^verbatim>\<open>__init__\<close> and never written
  again by the class; they are constants of the model.
\<close>

definition loop_threshold :: nat where
  "loop_threshold = 3"

definition watchdog_timeout :: real where
  "watchdog_timeout = 1800"

definition token_waste_threshold :: int where
  "token_waste_threshold = 100000"

record monitor =
  recent_actions :: "string list"
  last_progress_time :: real
  total_tokens_since_progress :: int

text \<open>\<^verbatim>\<open>__init__\<close>; the argument is the reading of \<^verbatim>\<open>time.time()\<close> at construction.\<close>

definition init_monitor :: "real \<Rightarrow> monitor" where
  "init_monitor now =
     \<lparr>recent_actions = [], last_progress_time = now, total_tokens_since_progress = 0\<rparr>"

text \<open>
  \<^verbatim>\<open>deque(maxlen=10).append(x)\<close>: the element is added on the right and, when the deque was
  full, the leftmost one is discarded.
\<close>

definition deque_append :: "nat \<Rightarrow> 'a list \<Rightarrow> 'a \<Rightarrow> 'a list" where
  "deque_append maxlen xs x = (if length xs < maxlen then xs @ [x] else tl xs @ [x])"

definition record_action :: "monitor \<Rightarrow> string \<Rightarrow> bool \<Rightarrow> int \<Rightarrow> real \<Rightarrow> monitor" where
  "record_action m action made_progress tokens_used now =
     (let m1 = m\<lparr>recent_actions := deque_append 10 (recent_actions m) action\<rparr>;
          m2 = m1\<lparr>total_tokens_since_progress := total_tokens_since_progress m1 + tokens_used\<rparr>
      in if made_progress
         then m2\<lparr>last_progress_time := now, total_tokens_since_progress := 0\<rparr>
         else m2)"

text \<open>
  \<^verbatim>\<open>detect_loop\<close>. \<^verbatim>\<open>recent\<close> is the slice \<^verbatim>\<open>[-loop_threshold:]\<close> of the deque, and both tests
  of the source are made on that slice.
\<close>

definition detect_loop :: "monitor \<Rightarrow> string option" where
  "detect_loop m =
     (if length (recent_actions m) < loop_threshold then None
      else
        let recent = drop (length (recent_actions m) - loop_threshold) (recent_actions m)
        in if card (set recent) = 1 then Some (recent ! 0)
           else if length recent \<ge> 4
             then (if recent ! 0 = recent ! 2 \<and> recent ! 1 = recent ! 3
                   then Some (''alternating: '' @ recent ! 0 @ '' <-> '' @ recent ! 1)
                   else None)
           else None)"

definition check_watchdog :: "monitor \<Rightarrow> real \<Rightarrow> bool" where
  "check_watchdog m now = (now - last_progress_time m > watchdog_timeout)"

definition check_token_waste :: "monitor \<Rightarrow> bool" where
  "check_token_waste m = (total_tokens_since_progress m > token_waste_threshold)"

record restart_decision =
  restart :: bool
  reason :: "string option"
  details :: "string option"

text \<open>
  \<^verbatim>\<open>should_restart\<close>. The test \<^verbatim>\<open>if loop:\<close> is Python truthiness of an optional string: it
  holds when \<^verbatim>\<open>detect_loop\<close> returned a string that is not empty. \<open>now\<close> is the clock
  reading taken inside \<^verbatim>\<open>check_watchdog\<close>, \<open>now'\<close> the later one used for the report.
\<close>

definition truthy :: "string option \<Rightarrow> bool" where
  "truthy v = (case v of None \<Rightarrow> False | Some s \<Rightarrow> s \<noteq> [])"

definition should_restart :: "monitor \<Rightarrow> real \<Rightarrow> real \<Rightarrow> restart_decision" where
  "should_restart m now now' =
     (let loop = detect_loop m
      in if truthy loop then
           \<lparr>restart = True, reason = Some ''loop_detected'',
            details = Some (''Agent stuck repeating: '' @ the loop)\<rparr>
         else if check_watchdog m now then
           \<lparr>restart = True, reason = Some ''watchdog_timeout'',
            details = Some (''No progress for ''
                            @ str_int (int_of_float (now' - last_progress_time m)) @ ''s'')\<rparr>
         else if check_token_waste m then
           \<lparr>restart = True, reason = Some ''token_waste'',
            details = Some (''Used '' @ str_int (total_tokens_since_progress m)
                            @ '' tokens without progress'')\<rparr>
         else \<lparr>restart = False, reason = None, details = None\<rparr>)"

text \<open>A run of \<^verbatim>\<open>record_action\<close> calls, each with its own arguments and clock reading.\<close>

type_synonym call = "string \<times> bool \<times> int \<times> real"

fun record_call :: "monitor \<Rightarrow> call \<Rightarrow> monitor" where
  "record_call m (action, made_progress, tokens_used, now) =
     record_action m action made_progress tokens_used now"

definition record_all :: "monitor \<Rightarrow> call list \<Rightarrow> monitor" where
  "record_all m cs = foldl record_call m cs"


section \<open>state_manager.py: StateManager\<close>

subsection \<open>The agent state\<close>

text \<open>
  The state is the dictionary built by \<^verbatim>\<open>_create_initial_state\<close>, one field per key. The
  key \<^verbatim>\<open>recent_actions\<close> is the field \<open>state_recent_actions\<close>, to keep it apart from the
  attribute of the monitor. An entry of the history is the dictionary built by
  \<^verbatim>\<open>add_action\<close>.
\<close>

record action_entry =
  timestamp :: string
  action :: string
  success :: bool
  summary :: string

record metadata =
  goal_set :: bool
  project_initialized :: bool

record agent_state =
  version :: string
  initialized_at :: string
  current_working_directory :: string
  files_in_context :: "string list"
  state_recent_actions :: "action_entry list"
  current_phase :: string
  actions_since_reflection :: int
  last_reflection :: "string option"
  total_actions :: int
  session_start :: string
  state_metadata :: metadata

text \<open>
  \<open>now\<close> and \<open>now'\<close> are the texts of the two calls of
  \<^verbatim>\<open>datetime.utcnow().isoformat()\<close>, \<open>project\<close> the text of the path
  \<^verbatim>\<open>workspace / "project"\<close>.
\<close>

definition create_initial_state :: "string \<Rightarrow> string \<Rightarrow> string \<Rightarrow> agent_state" where
  "create_initial_state project now now' =
     \<lparr>version = ''0.1.0'',
      initialized_at = now @ ''Z'',
      current_working_directory = project,
      files_in_context = [],
      state_recent_actions = [],
      current_phase = ''initialization'',
      actions_since_reflection = 0,
      last_reflection = None,
      total_actions = 0,
      session_start = now' @ ''Z'',
      state_metadata = \<lparr>goal_set = False, project_initialized = False\<rparr>\<rparr>"

text \<open>
  The result of a tool, as far as \<^verbatim>\<open>add_action\<close> reads it: the values under the keys
  \<^verbatim>\<open>success\<close> and \<^verbatim>\<open>summary\<close>, \<open>None\<close> for a key that is absent.
\<close>

record tool_result =
  result_success :: "bool option"
  result_summary :: "string option"

text \<open>\<^verbatim>\<open>d.get(key, default)\<close>.\<close>

definition get_default :: "'a option \<Rightarrow> 'a \<Rightarrow> 'a" where
  "get_default v d = (case v of None \<Rightarrow> d | Some x \<Rightarrow> x)"

definition new_entry :: "string \<Rightarrow> tool_result \<Rightarrow> string \<Rightarrow> action_entry" where
  "new_entry act result now =
     \<lparr>timestamp = now @ ''Z'',
      action = act,
      success = get_default (result_success result) False,
      summary = get_default (result_summary result) []\<rparr>"

text \<open>\<^verbatim>\<open>xs[-20:]\<close>, the last twenty elements of a list (all of it when it is shorter).\<close>

definition last20 :: "'a list \<Rightarrow> 'a list" where
  "last20 xs = drop (length xs - 20) xs"

definition add_action :: "agent_state \<Rightarrow> string \<Rightarrow> tool_result \<Rightarrow> string \<Rightarrow> agent_state" where
  "add_action state act result now =
     (let action_entry = new_entry act result now;
          s1 = state\<lparr>state_recent_actions := state_recent_actions state @ [action_entry]\<rparr>;
          s2 = (if length (state_recent_actions s1) > 20
                then s1\<lparr>state_recent_actions := last20 (state_recent_actions s1)\<rparr>
                else s1);
          s3 = s2\<lparr>total_actions := total_actions s2 + 1\<rparr>
      in s3\<lparr>actions_since_reflection := actions_since_reflection s3 + 1\<rparr>)"

definition should_reflect :: "agent_state \<Rightarrow> bool" where
  "should_reflect state = (actions_since_reflection state \<ge> 10)"

definition mark_reflection :: "agent_state \<Rightarrow> string \<Rightarrow> agent_state" where
  "mark_reflection state now =
     state\<lparr>last_reflection := Some (now @ ''Z''), actions_since_reflection := 0\<rparr>"

text \<open>A run of \<^verbatim>\<open>add_action\<close> calls on one state.\<close>

type_synonym action_call = "string \<times> tool_result \<times> string"

fun add_call :: "agent_state \<Rightarrow> action_call \<Rightarrow> agent_state" where
  "add_call state (act, result, now) = add_action state act result now"

subsection \<open>The memory documents\<close>

text \<open>
  The content of a memory document is a Python string, a sequence of code points; a code
  point is a natural number, since a string can hold a lone surrogate, which no byte string
  in UTF-8 stands for. Names of document kinds stay strings of the model.

  The files are opened in text mode with the default encoding and the default
  \<^verbatim>\<open>newline\<close>; the model is that of a POSIX system whose default encoding is UTF-8, as
  the default workspace path suggests. A file that exists holds bytes: either the UTF-8
  encoding of a text (\<open>Utf8\<close> of that text) or bytes that are not valid UTF-8. The memory
  directory may be missing, since no method of the class creates it: the store is
  \<open>None\<close> then, otherwise the four files, each \<open>None\<close> when it does not exist. Other
  failures of the file system (permissions, a full disk) are not part of the model.
\<close>

type_synonym pystr = "nat list"

datatype file_data = Utf8 pystr | Not_utf8

record memory_files =
  goals_file :: "file_data option"
  progress_file :: "file_data option"
  decisions_file :: "file_data option"
  blockers_file :: "file_data option"

type_synonym memory_dir = "memory_files option"

datatype error =
  ValueError string | FileNotFoundError | UnicodeEncodeError | UnicodeDecodeError

definition CR :: nat where
  "CR = 13"

definition LF :: nat where
  "LF = 10"

text \<open>The code points UTF-8 encodes: all but the surrogates, up to the last code point.\<close>

definition encodable :: "nat \<Rightarrow> bool" where
  "encodable c = (c < 0xD800 \<or> (0xDFFF < c \<and> c \<le> 0x10FFFF))"

text \<open>
  \<^verbatim>\<open>with open(path, 'w') as f: f.write(content)\<close> in an existing directory: the file is
  created or truncated, and the content is encoded as a whole before a byte is written.
  The result is the file left behind and the exception raised, if any. Writing stores
  line feeds and carriage returns as they are.
\<close>

definition write_text :: "pystr \<Rightarrow> file_data \<times> error option" where
  "write_text content =
     (if list_all encodable content then (Utf8 content, None)
      else (Utf8 [], Some UnicodeEncodeError))"

text \<open>
  The translation applied by \<^verbatim>\<open>f.read()\<close> to the decoded text: a carriage return followed
  by a line feed, and every other carriage return, becomes one line feed.
\<close>

fun read_text :: "pystr \<Rightarrow> pystr" where
  "read_text [] = []"
| "read_text [c] = [if c = CR then LF else c]"
| "read_text (c # d # cs) =
     (if c = CR then (if d = LF then LF # read_text cs else LF # read_text (d # cs))
      else c # read_text (d # cs))"

text \<open>\<^verbatim>\<open>with open(path, 'r') as f: f.read()\<close> on a file that exists.\<close>

definition read_file :: "file_data \<Rightarrow> error + pystr" where
  "read_file d = (case d of Utf8 t \<Rightarrow> Inr (read_text t) | Not_utf8 \<Rightarrow> Inl UnicodeDecodeError)"

text \<open>One of the four \<^verbatim>\<open>if ... exists()\<close> blocks of \<^verbatim>\<open>load_memory\<close>.\<close>

definition load_file ::
  "(string \<rightharpoonup> pystr) \<Rightarrow> string \<Rightarrow> file_data option \<Rightarrow> error + (string \<rightharpoonup> pystr)" where
  "load_file memory key file =
     (case file of
        None \<Rightarrow> Inr memory
      | Some d \<Rightarrow> (case read_file d of Inl e \<Rightarrow> Inl e | Inr t \<Rightarrow> Inr (memory(key \<mapsto> t))))"

definition load_memory :: "memory_dir \<Rightarrow> error + (string \<rightharpoonup> pystr)" where
  "load_memory dir =
     (case dir of
        None \<Rightarrow> Inr Map.empty
      | Some fs \<Rightarrow>
          (case load_file Map.empty ''goals'' (goals_file fs) of
             Inl e \<Rightarrow> Inl e
           | Inr m1 \<Rightarrow>
               (case load_file m1 ''progress'' (progress_file fs) of
                  Inl e \<Rightarrow> Inl e
                | Inr m2 \<Rightarrow>
                    (case load_file m2 ''decisions'' (decisions_file fs) of
                       Inl e \<Rightarrow> Inl e
                     | Inr m3 \<Rightarrow> load_file m3 ''blockers'' (blockers_file fs)))))"

text \<open>
  \<^verbatim>\<open>update_memory_file\<close>: the store it leaves and the exception it raises, if any. The kind
  is looked up before the file is opened.
\<close>

definition update_memory_file ::
  "memory_dir \<Rightarrow> string \<Rightarrow> pystr \<Rightarrow> memory_dir \<times> error option" where
  "update_memory_file dir file_type content =
     (if file_type \<notin> set [''goals'', ''progress'', ''decisions'', ''blockers''] then
        (dir, Some (ValueError (''Unknown memory file type: '' @ file_type)))
      else
        (case dir of
           None \<Rightarrow> (None, Some FileNotFoundError)
         | Some fs \<Rightarrow>
             (let (d, e) = write_text content
              in if file_type = ''goals'' then (Some (fs\<lparr>goals_file := Some d\<rparr>), e)
                 else if file_type = ''progress'' then (Some (fs\<lparr>progress_file := Some d\<rparr>), e)
                 else if file_type = ''decisions'' then (Some (fs\<lparr>decisions_file := Some d\<rparr>), e)
                 else (Some (fs\<lparr>blockers_file := Some d\<rparr>), e))))"

text \<open>\<^verbatim>\<open>memory.get(key)\<close> on the result of \<^verbatim>\<open>load_memory\<close>.\<close>

definition memory_entry :: "error + (string \<rightharpoonup> pystr) \<Rightarrow> string \<Rightarrow> error + pystr option" where
  "memory_entry loaded key = (case loaded of Inl e \<Rightarrow> Inl e | Inr m \<Rightarrow> Inr (m key))"

text \<open>
  Two descriptions used to state properties of the functions above: the entry a file
  contributes to the loaded map when it can be decoded, the map of the four entries, and
  the condition that the files of the kinds other than \<open>file_type\<close>, where present, are
  valid UTF-8.
\<close>

definition decoded :: "file_data option \<Rightarrow> pystr option" where
  "decoded file = (case file of Some (Utf8 t) \<Rightarrow> Some (read_text t) | _ \<Rightarrow> None)"

definition documents :: "memory_files \<Rightarrow> (string \<rightharpoonup> pystr)" where
  "documents fs =
     (\<lambda>key. if key = ''goals'' then decoded (goals_file fs)
            else if key = ''progress'' then decoded (progress_file fs)
            else if key = ''decisions'' then decoded (decisions_file fs)
            else if key = ''blockers'' then decoded (blockers_file fs)
            else None)"

definition others_decodable :: "memory_files \<Rightarrow> string \<Rightarrow> bool" where
  "others_decodable fs file_type =
     ((file_type = ''goals'' \<or> goals_file fs \<noteq> Some Not_utf8) \<and>
      (file_type = ''progress'' \<or> progress_file fs \<noteq> Some Not_utf8) \<and>
      (file_type = ''decisions'' \<or> decisions_file fs \<noteq> Some Not_utf8) \<and>
      (file_type = ''blockers'' \<or> blockers_file fs \<noteq> Some Not_utf8))"

section \<open>agent_v2.py: the control loop\<close>

text \<open>
  What the collaborators of one iteration of \<^verbatim>\<open>run\<close> did is given to the model as an
  event. A tool call that was carried through \<^verbatim>\<open>add_action\<close> is a step: the name of the
  function, the text of \<^verbatim>\<open>json.dumps(function_args)\<close>, what the body of the \<^verbatim>\<open>try\<close> of
  \<^verbatim>\<open>_execute_tool\<close> did (\<open>Inr\<close> the result it returned, \<open>Inl\<close> the text of an exception
  raised in it) and the timestamp of the entry. \<open>raised\<close> is the exception that left
  the body of the \<^verbatim>\<open>try\<close>, if one did, after the steps listed were recorded;
  \<open>Exception e\<close> stands for any exception caught by \<^verbatim>\<open>except Exception\<close>, with \<open>e\<close>
  the text of \<^verbatim>\<open>str(e)\<close>. The reflection step at the head of the body calls no
  collaborator and is taken not to raise. The conversation history and the memory
  documents only feed the decision collaborator and are not part of the model;
  \<^verbatim>\<open>save_state\<close> is taken to succeed, and every state it writes is kept in the list
  \<open>saved\<close>, oldest first.
\<close>

datatype exception = KeyboardInterrupt | Exception string

record tool_step =
  function_name :: string
  function_args :: string
  tool_outcome :: "string + tool_result"
  step_stamp :: string

record iteration_event =
  reflect_stamp :: string
  steps :: "tool_step list"
  raised :: "exception option"
  error_stamp :: string

text \<open>\<^verbatim>\<open>_execute_tool\<close>: an exception of the tool becomes a failed result.\<close>

definition execute_tool :: "string + tool_result \<Rightarrow> tool_result" where
  "execute_tool outcome =
     (case outcome of
        Inr result \<Rightarrow> result
      | Inl e \<Rightarrow>
          \<lparr>result_success = Some False,
           result_summary = Some (''Tool execution failed: '' @ e)\<rparr>)"

definition record_step :: "agent_state \<Rightarrow> tool_step \<Rightarrow> agent_state" where
  "record_step state s =
     (let result = execute_tool (tool_outcome s)
      in add_action state (function_name s @ ''('' @ function_args s @ '')'') result
           (step_stamp s))"

text \<open>
  The \<^verbatim>\<open>for\<close> loop over the tool calls of one response: every call is recorded, and the
  loop is left after a \<^verbatim>\<open>complete_goal\<close> with \<^verbatim>\<open>self.running\<close> set to false.
\<close>

fun tool_calls :: "agent_state \<Rightarrow> tool_step list \<Rightarrow> agent_state \<times> bool" where
  "tool_calls state [] = (state, True)"
| "tool_calls state (s # ss) =
     (let state' = record_step state s
      in if function_name s = ''complete_goal'' then (state', False)
         else tool_calls state' ss)"

definition reflect :: "agent_state \<Rightarrow> string \<Rightarrow> agent_state" where
  "reflect state now = (if should_reflect state then mark_reflection state now else state)"

text \<open>The handler \<^verbatim>\<open>except Exception as e\<close> of the loop, up to the write of the state.\<close>

definition error_result :: "string \<Rightarrow> tool_result" where
  "error_result e = \<lparr>result_success = Some False, result_summary = Some (''Error: '' @ e)\<rparr>"

definition handle_exception :: "agent_state \<Rightarrow> string \<Rightarrow> string \<Rightarrow> agent_state" where
  "handle_exception state e now = add_action state ''error'' (error_result e) now"

text \<open>
  The \<^verbatim>\<open>while\<close> loop of \<^verbatim>\<open>run\<close>, from the values of \<^verbatim>\<open>iteration\<close>, \<^verbatim>\<open>self.running\<close> and
  \<^verbatim>\<open>state\<close> at its head. It returns the final state and the states written to disk.
\<close>

function run_from ::
  "(int \<Rightarrow> iteration_event) \<Rightarrow> int \<Rightarrow> int \<Rightarrow> bool \<Rightarrow> agent_state \<Rightarrow> agent_state list
     \<Rightarrow> agent_state \<times> agent_state list" where
  "run_from env max_iterations iteration running state saved =
     (if running \<and> iteration < max_iterations then
        (let ev = env (iteration + 1);
             state1 = reflect state (reflect_stamp ev)
         in case raised ev of
              None \<Rightarrow>
                (let (state2, running') = tool_calls state1 (steps ev)
                 in run_from env max_iterations (iteration + 1) running' state2
                      (saved @ [state2]))
            | Some KeyboardInterrupt \<Rightarrow>
                (let state2 = foldl record_step state1 (steps ev)
                 in (state2, saved @ [state2]))
            | Some (Exception e) \<Rightarrow>
                (let state2 = handle_exception (foldl record_step state1 (steps ev)) e
                                (error_stamp ev)
                 in run_from env max_iterations (iteration + 1) running state2
                      (saved @ [state2])))
      else (state, saved))"
  by pat_completeness auto
termination
  by (relation "measure (\<lambda>(env, max_iterations, iteration, running, state, saved).
        nat (max_iterations - iteration))") auto

declare run_from.simps [simp del]

definition load_state ::
  "agent_state option \<Rightarrow> string \<Rightarrow> string \<Rightarrow> string \<Rightarrow> agent_state" where
  "load_state stored project now now' =
     (case stored of
        None \<Rightarrow> create_initial_state project now now'
      | Some state \<Rightarrow> state)"

definition run ::
  "agent_state option \<Rightarrow> string \<Rightarrow> string \<Rightarrow> string \<Rightarrow> string option \<Rightarrow> int
     \<Rightarrow> (int \<Rightarrow> iteration_event) \<Rightarrow> agent_state \<times> agent_state list" where
  "run stored project now now' initial_goal max_iterations env =
     (let state = load_state stored project now now';
          state = (if truthy initial_goal
                   then state\<lparr>state_metadata := (state_metadata state)\<lparr>goal_set := True\<rparr>\<rparr>
                   else state)
      in run_from env max_iterations 0 True state [])"

section \<open>continuous.py: ContinuousRunner\<close>

text \<open>
  One turn of the \<^verbatim>\<open>while\<close> loop of \<^verbatim>\<open>run_continuous\<close> as the environment determines it:
  the clock reading of the loop condition, what \<^verbatim>\<open>agent.run\<close> did (an exception that left
  it, or the value of \<^verbatim>\<open>total_actions\<close> in the state it returned), the duration measured
  by \<^verbatim>\<open>run_session\<close>, the timestamp of an entry of the error log, and the value of
  what the check of the state file after the session found. That check is
  \<^verbatim>\<open>json.load\<close> and \<^verbatim>\<open>state.get("current_phase")\<close> on the file when it exists, under no
  handler but the one for the user interrupt: it either gives the phase (\<open>None\<close> when
  the file or the key is absent) or raises, with the text of the exception. Writing the
  log and the statistics is taken to succeed; the restart delay only lets time pass.
\<close>

datatype state_check = Phase_read "string option" | Check_raised string

record session_event =
  loop_clock :: real
  session_body :: "exception + int"
  session_time :: real
  session_stamp :: string
  state_file :: state_check

text \<open>
  The dictionary returned by \<^verbatim>\<open>run_session\<close>, one field per key (\<open>sr_\<close> before the name of
  the key).
\<close>

record session_result =
  sr_success :: bool
  sr_duration :: real
  sr_total_actions :: int
  sr_error :: "string option"

text \<open>\<^verbatim>\<open>run_session\<close>: \<open>Inl\<close> is the exception it lets through.\<close>

definition run_session :: "session_event \<Rightarrow> exception + session_result" where
  "run_session ev =
     (case session_body ev of
        Inr n \<Rightarrow>
          Inr \<lparr>sr_success = True, sr_duration = session_time ev, sr_total_actions = n,
               sr_error = None\<rparr>
      | Inl KeyboardInterrupt \<Rightarrow> Inl KeyboardInterrupt
      | Inl (Exception e) \<Rightarrow>
          Inr \<lparr>sr_success = False, sr_duration = session_time ev, sr_total_actions = 0,
               sr_error = Some e\<rparr>)"

text \<open>
  The statistics dictionary; the key \<^verbatim>\<open>total_actions\<close> is the field \<open>stats_total_actions\<close>,
  and an entry of \<^verbatim>\<open>errors\<close> is the pair of its timestamp and its error text.
\<close>

record operation_stats =
  goal :: string
  started_at :: string
  duration_hours :: int
  sessions_completed :: int
  sessions_failed :: int
  stats_total_actions :: int
  total_runtime :: real
  errors :: "(string \<times> string option) list"
  ended_at :: "string option"

text \<open>The update of the statistics after a session, up to \<^verbatim>\<open>update_stats\<close>.\<close>

definition update_after_session ::
  "operation_stats \<Rightarrow> session_result \<Rightarrow> string \<Rightarrow> operation_stats" where
  "update_after_session stats result now =
     (let stats1 =
            (if sr_success result then
               stats\<lparr>sessions_completed := sessions_completed stats + 1,
                     stats_total_actions := stats_total_actions stats + sr_total_actions result\<rparr>
             else
               stats\<lparr>sessions_failed := sessions_failed stats + 1,
                     errors := errors stats @ [(now @ ''Z'', sr_error result)]\<rparr>)
      in stats1\<lparr>total_runtime := total_runtime stats1 + sr_duration result\<rparr>)"

text \<open>
  Why the loop was left. \<open>Aborted e\<close> is an exception with the text \<open>e\<close> that no
  handler of \<^verbatim>\<open>run_continuous\<close> catches: it leaves the function after the \<^verbatim>\<open>finally\<close>
  block.
\<close>

datatype halt = Duration_reached | Goal_complete | User_interrupt | Aborted string

text \<open>
  What a supervised run leaves behind: why the loop was left, the statistics, every
  statistics record written by \<^verbatim>\<open>update_stats\<close> (oldest first), and the number of calls of
  \<^verbatim>\<open>run_session\<close>.
\<close>

record supervision =
  halted_by :: halt
  stats_of :: operation_stats
  saved_stats :: "operation_stats list"
  sessions_started :: nat

text \<open>
  The \<^verbatim>\<open>while\<close> loop. The list holds the events of the turns still to come; the result is
  \<open>None\<close> when the list ends while the loop is still running.
\<close>

fun supervise ::
  "real \<Rightarrow> operation_stats \<Rightarrow> operation_stats list \<Rightarrow> nat \<Rightarrow> session_event list
     \<Rightarrow> supervision option" where
  "supervise end_time stats saved n [] = None"
| "supervise end_time stats saved n (ev # evs) =
     (if loop_clock ev < end_time then
        (case run_session ev of
           Inl e \<Rightarrow>
             Some \<lparr>halted_by = User_interrupt, stats_of = stats, saved_stats = saved,
                   sessions_started = n + 1\<rparr>
         | Inr result \<Rightarrow>
             (let stats' = update_after_session stats result (session_stamp ev)
              in case state_file ev of
                   Check_raised e \<Rightarrow>
                     Some \<lparr>halted_by = Aborted e, stats_of = stats',
                           saved_stats = saved @ [stats'], sessions_started = n + 1\<rparr>
                 | Phase_read phase \<Rightarrow>
                     if phase = Some ''complete'' then
                       Some \<lparr>halted_by = Goal_complete, stats_of = stats',
                             saved_stats = saved @ [stats'], sessions_started = n + 1\<rparr>
                     else supervise end_time stats' (saved @ [stats']) (n + 1) evs))
      else
        Some \<lparr>halted_by = Duration_reached, stats_of = stats, saved_stats = saved,
              sessions_started = n\<rparr>)"

text \<open>
  \<^verbatim>\<open>run_continuous\<close>. \<open>start_time\<close> and \<open>final_clock\<close> are the first and the last reading of
  the clock, \<open>started\<close> and \<open>ended\<close> the two timestamps of the statistics. The
  \<^verbatim>\<open>finally\<close> block writes the statistics once more, however the loop was left.
\<close>

definition initial_stats :: "string \<Rightarrow> int \<Rightarrow> string \<Rightarrow> operation_stats" where
  "initial_stats g hours started =
     \<lparr>goal = g, started_at = started @ ''Z'', duration_hours = hours,
      sessions_completed = 0, sessions_failed = 0, stats_total_actions = 0,
      total_runtime = 0, errors = [], ended_at = None\<rparr>"

definition run_continuous ::
  "string \<Rightarrow> int \<Rightarrow> real \<Rightarrow> string \<Rightarrow> session_event list \<Rightarrow> string \<Rightarrow> real
     \<Rightarrow> supervision option" where
  "run_continuous g hours start_time started evs ended final_clock =
     (let end_time = start_time + real_of_int (hours * 3600);
          stats = initial_stats g hours started
      in case supervise end_time stats [] 0 evs of
           None \<Rightarrow> None
         | Some r \<Rightarrow>
             (let final = (stats_of r)\<lparr>ended_at := Some (ended @ ''Z''),
                                       total_runtime := final_clock - start_time\<rparr>
              in Some (r\<lparr>stats_of := final, saved_stats := saved_stats r @ [final]\<rparr>)))"

text \<open>
  The event of a session in which no exception but a user interrupt leaves \<^verbatim>\<open>agent.run\<close>:
  a failed session is replaced by one that returns.
\<close>

definition recovered :: "session_event \<Rightarrow> session_event" where
  "recovered ev =
     (case session_body ev of
        Inl (Exception e) \<Rightarrow> ev\<lparr>session_body := Inr 0\<rparr>
      | _ \<Rightarrow> ev)"

section \<open>Properties of the ReliabilityMonitor\<close>

subsection \<open>The ring buffer\<close>

lemma deque_append_drop:
  assumes "length xs \<le> 10"
  shows "deque_append 10 xs x = drop (length (xs @ [x]) - 10) (xs @ [x])"
proof (cases "length xs < 10")
  case True
  then show ?thesis by (simp add: deque_append_def)
next
  case False
  with assms have len: "length xs = 10" by simp
  then have "xs \<noteq> []" by auto
  then have "tl xs = drop 1 xs" by (simp add: drop_Suc)
  with len show ?thesis by (simp add: deque_append_def)
qed

lemma recent_actions_record_call:
  "recent_actions (record_call m c) = deque_append 10 (recent_actions m) (fst c)"
  by (cases c) (simp add: record_action_def Let_def)

lemma record_all_snoc: "record_all m (cs @ [c]) = record_call (record_all m cs) c"
  by (simp add: record_all_def)

lemma drop_last10_snoc:
  "drop (length (drop (length ys - 10) ys @ [x]) - 10) (drop (length ys - 10) ys @ [x])
     = drop (length (ys @ [x]) - 10) (ys @ [x])"
proof (cases "length ys < 10")
  case True
  then show ?thesis by simp
next
  case False
  then have "length ys - 10 + 1 = length ys + 1 - 10" by simp
  with False show ?thesis by (simp add: add.commute)
qed

text \<open>
  After any sequence of calls the deque holds the last ten of the descriptors it was given,
  oldest first.
\<close>

lemma recent_actions_record_all:
  assumes "length (recent_actions m) \<le> 10"
  shows "recent_actions (record_all m cs) =
           drop (length (recent_actions m @ map fst cs) - 10) (recent_actions m @ map fst cs)"
proof (induction cs rule: rev_induct)
  case Nil
  from assms show ?case by (simp add: record_all_def)
next
  case (snoc c cs)
  let ?all = "recent_actions m @ map fst cs"
  have short: "length (drop (length ?all - 10) ?all) \<le> 10" by simp
  have "recent_actions (record_all m (cs @ [c])) =
          deque_append 10 (drop (length ?all - 10) ?all) (fst c)"
    by (simp add: record_all_snoc recent_actions_record_call snoc.IH)
  also have "\<dots> = drop (length (drop (length ?all - 10) ?all @ [fst c]) - 10)
                      (drop (length ?all - 10) ?all @ [fst c])"
    using short by (rule deque_append_drop)
  also have "\<dots> = drop (length (?all @ [fst c]) - 10) (?all @ [fst c])"
    by (rule drop_last10_snoc)
  finally show ?case by simp
qed

lemma recent_actions_fresh:
  "recent_actions (record_all (init_monitor t0) cs) = drop (length cs - 10) (map fst cs)"
  using recent_actions_record_all [of "init_monitor t0" cs] by (simp add: init_monitor_def)

lemma recent_actions_bounded:
  "length (recent_actions (record_all (init_monitor t0) cs)) \<le> 10"
  by (simp add: recent_actions_fresh)

subsection \<open>Loop detection\<close>

lemma length3_cases:
  assumes "length ys = 3"
  obtains x y z where "ys = [x, y, z]"
  using assms by (auto simp: length_Suc_conv eval_nat_numeral)

lemma card3_one:
  assumes "card {x, y, z} = 1"
  shows "x = y \<and> y = z"
proof -
  from assms obtain w where w: "{x, y, z} = {w}"
    by (auto simp: card_1_singleton_iff)
  then have "x = w" "y = w" "z = w" by auto
  then show ?thesis by simp
qed

lemma recent_slice_length:
  assumes "\<not> length xs < loop_threshold"
  shows "length (drop (length xs - loop_threshold) xs) = 3"
  using assms by (simp add: loop_threshold_def)

text \<open>Exact repetition: the last three descriptors are the same one.\<close>

lemma detect_loop_repeat:
  assumes "recent_actions m = xs @ [a, a, a]"
  shows "detect_loop m = Some a"
  using assms by (simp add: detect_loop_def loop_threshold_def)

text \<open>
  Every result of \<^const>\<open>detect_loop\<close> is an exact repetition: the slice it inspects has
  three elements, so the test for four or more never succeeds.
\<close>

lemma detect_loop_Some_repeat:
  assumes "detect_loop m = Some d"
  shows "\<exists>xs. recent_actions m = xs @ [d, d, d]"
proof -
  let ?acts = "recent_actions m"
  let ?recent = "drop (length ?acts - loop_threshold) ?acts"
  from assms have long: "\<not> length ?acts < loop_threshold"
    by (auto simp: detect_loop_def split: if_splits)
  then have len: "length ?recent = 3" by (rule recent_slice_length)
  then obtain x y z where r: "?recent = [x, y, z]" by (rule length3_cases)
  from assms long len have one: "card (set ?recent) = 1" and d: "?recent ! 0 = d"
    by (auto simp: detect_loop_def Let_def split: if_splits)
  from one r have "x = y \<and> y = z" using card3_one [of x y z] by simp
  with d r have "?recent = [d, d, d]" by simp
  then have "?acts = take (length ?acts - loop_threshold) ?acts @ [d, d, d]"
    by (metis append_take_drop_id)
  then show ?thesis by blast
qed

lemma detect_loop_distinct_None:
  assumes "recent_actions m = xs @ [a, b, c]" and "a \<noteq> b \<or> b \<noteq> c"
  shows "detect_loop m = None"
proof (cases "detect_loop m")
  case None
  then show ?thesis .
next
  case (Some d)
  then obtain ys where ys: "recent_actions m = ys @ [d, d, d]"
    using detect_loop_Some_repeat by blast
  from assms(1) [symmetric] ys have "xs @ [a, b, c] = ys @ [d, d, d]" by (rule trans)
  then have "a = d" and "b = d" and "c = d" by auto
  with assms(2) show ?thesis by blast
qed

lemma detect_loop_alternation_None:
  assumes "recent_actions m = xs @ [a, b, a, b]" and "a \<noteq> b"
  shows "detect_loop m = None"
proof -
  from assms(1) have "recent_actions m = (xs @ [a]) @ [b, a, b]" by simp
  moreover from assms(2) have "b \<noteq> a \<or> a \<noteq> b" by simp
  ultimately show ?thesis by (rule detect_loop_distinct_None)
qed

lemma drop_append_le:
  assumes "k \<le> length xs"
  shows "drop k (xs @ ys) = drop k xs @ ys"
  using assms by simp

text \<open>
  The same on a fresh monitor, for the descriptors handed to \<^verbatim>\<open>record_action\<close>: whatever
  was recorded before, three calls with one descriptor are reported, and four calls that
  alternate between two descriptors are not.
\<close>

lemma recent_actions_fresh_snoc3:
  "\<exists>xs. recent_actions (record_all (init_monitor t0) (cs @ [c1, c2, c3]))
          = xs @ [fst c1, fst c2, fst c3]"
proof -
  have "length (cs @ [c1, c2, c3]) - 10 \<le> length (map fst cs)" by simp
  then have "drop (length (cs @ [c1, c2, c3]) - 10) (map fst cs @ [fst c1, fst c2, fst c3])
      = drop (length (cs @ [c1, c2, c3]) - 10) (map fst cs) @ [fst c1, fst c2, fst c3]"
    by (rule drop_append_le)
  then show ?thesis by (simp add: recent_actions_fresh)
qed

lemma detect_loop_three_calls:
  "detect_loop (record_all (init_monitor t0)
     (cs @ [(a, p1, k1, t1), (a, p2, k2, t2), (a, p3, k3, t3)])) = Some a"
proof -
  obtain xs where "recent_actions (record_all (init_monitor t0)
      (cs @ [(a, p1, k1, t1), (a, p2, k2, t2), (a, p3, k3, t3)])) = xs @ [a, a, a]"
    using recent_actions_fresh_snoc3 [of t0 cs "(a, p1, k1, t1)" "(a, p2, k2, t2)" "(a, p3, k3, t3)"]
    by auto
  then show ?thesis by (rule detect_loop_repeat)
qed

lemma detect_loop_alternating_calls:
  assumes "a \<noteq> b"
  shows "detect_loop (record_all (init_monitor t0)
     (cs @ [(a, p1, k1, t1), (b, p2, k2, t2), (a, p3, k3, t3), (b, p4, k4, t4)])) = None"
proof -
  obtain xs where "recent_actions (record_all (init_monitor t0)
      ((cs @ [(a, p1, k1, t1)]) @ [(b, p2, k2, t2), (a, p3, k3, t3), (b, p4, k4, t4)]))
      = xs @ [b, a, b]"
    using recent_actions_fresh_snoc3 [of t0 "cs @ [(a, p1, k1, t1)]" "(b, p2, k2, t2)"
        "(a, p3, k3, t3)" "(b, p4, k4, t4)"]
    by auto
  then have "recent_actions (record_all (init_monitor t0)
      (cs @ [(a, p1, k1, t1), (b, p2, k2, t2), (a, p3, k3, t3), (b, p4, k4, t4)]))
      = xs @ [b, a, b]"
    by simp
  moreover from assms have "b \<noteq> a \<or> a \<noteq> b" by simp
  ultimately show ?thesis by (rule detect_loop_distinct_None)
qed

text \<open>
  C1. \<^verbatim>\<open>detect_loop\<close> is to return the repeated descriptor on three identical recent
  descriptors, the alternating pair on a recent A, B, A, B, and nothing on three distinct
  descriptors. The first and the last hold (\<open>detect_loop_three_calls\<close>,
  \<open>detect_loop_distinct_None\<close>); the alternation never does
  (\<open>detect_loop_alternating_calls\<close>), because the source tests \<^verbatim>\<open>len(recent) >= 4\<close> on a
  slice of three. On a fresh monitor that recorded A, B, A, B the function returns nothing.
\<close>

theorem detect_loop_misses_alternation:
  "detect_loop (record_all (init_monitor 0)
     [(''A'', False, 0, 1), (''B'', False, 0, 2), (''A'', False, 0, 3), (''B'', False, 0, 4)])
   = None"
  by (simp add: record_all_def record_action_def init_monitor_def deque_append_def
      detect_loop_def loop_threshold_def card_set)

subsection \<open>Restart decision\<close>

text \<open>
  The three triggers in the order of the source. The loop trigger is taken when the result
  of \<^const>\<open>detect_loop\<close> is truthy, and it then wins over the other two whatever
  the clock and the accumulator say.
\<close>

lemma should_restart_loop:
  assumes "detect_loop m = Some d" and "d \<noteq> []"
  shows "should_restart m now now' =
           \<lparr>restart = True, reason = Some ''loop_detected'',
            details = Some (''Agent stuck repeating: '' @ d)\<rparr>"
  using assms by (simp add: should_restart_def truthy_def)

lemma should_restart_watchdog:
  assumes "\<not> truthy (detect_loop m)" and "check_watchdog m now"
  shows "should_restart m now now' =
           \<lparr>restart = True, reason = Some ''watchdog_timeout'',
            details = Some (''No progress for ''
                            @ str_int (int_of_float (now' - last_progress_time m)) @ ''s'')\<rparr>"
  using assms by (simp add: should_restart_def)

lemma should_restart_token_waste:
  assumes "\<not> truthy (detect_loop m)" and "\<not> check_watchdog m now" and "check_token_waste m"
  shows "should_restart m now now' =
           \<lparr>restart = True, reason = Some ''token_waste'',
            details = Some (''Used '' @ str_int (total_tokens_since_progress m)
                            @ '' tokens without progress'')\<rparr>"
  using assms by (simp add: should_restart_def)

lemma should_restart_none:
  assumes "\<not> truthy (detect_loop m)" and "\<not> check_watchdog m now" and "\<not> check_token_waste m"
  shows "should_restart m now now' = \<lparr>restart = False, reason = None, details = None\<rparr>"
  using assms by (simp add: should_restart_def)

text \<open>
  The scenario of the specification: three calls with the descriptor
  \<^verbatim>\<open>run_command(pytest)\<close> and no progress on a fresh monitor.
\<close>

lemma should_restart_pytest:
  "should_restart
     (record_all (init_monitor t0)
        [(''run_command(pytest)'', False, k1, t1), (''run_command(pytest)'', False, k2, t2),
         (''run_command(pytest)'', False, k3, t3)]) now now'
   = \<lparr>restart = True, reason = Some ''loop_detected'',
      details = Some ''Agent stuck repeating: run_command(pytest)''\<rparr>"
proof -
  let ?m = "record_all (init_monitor t0)
        [(''run_command(pytest)'', False, k1, t1), (''run_command(pytest)'', False, k2, t2),
         (''run_command(pytest)'', False, k3, t3)]"
  have "recent_actions ?m = [] @ [''run_command(pytest)'', ''run_command(pytest)'', ''run_command(pytest)'']"
    by (simp add: recent_actions_fresh)
  then have "detect_loop ?m = Some ''run_command(pytest)''" by (rule detect_loop_repeat)
  then show ?thesis using should_restart_loop[of ?m "''run_command(pytest)''" now now'] by simp
qed

text \<open>
  C2. \<^verbatim>\<open>should_restart\<close> is to report the first of loop detection, watchdog and token
  waste that is positive. The order is the source's (lemmas \<open>should_restart_loop\<close> to
  \<open>should_restart_none\<close>), and the scenario holds (\<open>should_restart_pytest\<close>). But the source
  tests the optional result of \<^verbatim>\<open>detect_loop\<close> with \<^verbatim>\<open>if loop:\<close>, and the empty
  descriptor is a string that is false: after three calls recording the empty descriptor,
  \<^verbatim>\<open>detect_loop\<close> returns that descriptor, and \<^verbatim>\<open>should_restart\<close> answers that no
  restart is needed.
\<close>

theorem should_restart_misses_empty_descriptor:
  "detect_loop (record_all (init_monitor 0) [([], False, 0, 1), ([], False, 0, 2), ([], False, 0, 3)])
     = Some [] \<and>
   should_restart (record_all (init_monitor 0) [([], False, 0, 1), ([], False, 0, 2), ([], False, 0, 3)]) 4 4
     = \<lparr>restart = False, reason = None, details = None\<rparr>"
  by (simp add: record_all_def record_action_def init_monitor_def deque_append_def
      detect_loop_def loop_threshold_def card_set should_restart_def truthy_def
      check_watchdog_def watchdog_timeout_def check_token_waste_def token_waste_threshold_def)

subsection \<open>Token accumulator and watchdog\<close>

text \<open>
  C6. After \<^verbatim>\<open>record_action\<close> the accumulator is zero when the call was flagged as
  progress and otherwise the old value plus \<^verbatim>\<open>tokens_used\<close>; the last-progress time is the
  clock reading of the call when it was flagged as progress and otherwise unchanged; and
  \<^verbatim>\<open>check_token_waste\<close> holds exactly when the accumulator is greater than 100000.
\<close>

theorem record_action_accumulator:
  "total_tokens_since_progress (record_action m a made_progress tokens now)
     = (if made_progress then 0 else total_tokens_since_progress m + tokens) \<and>
   last_progress_time (record_action m a made_progress tokens now)
     = (if made_progress then now else last_progress_time m) \<and>
   check_token_waste m = (total_tokens_since_progress m > 100000)"
  by (simp add: record_action_def Let_def check_token_waste_def token_waste_threshold_def)

lemma last_progress_time_no_progress:
  assumes "\<forall>c \<in> set cs. \<not> fst (snd c)"
  shows "last_progress_time (record_all m cs) = last_progress_time m"
  using assms
proof (induction cs rule: rev_induct)
  case Nil
  show ?case by (simp add: record_all_def)
next
  case (snoc c cs)
  obtain a p k t where c: "c = (a, p, k, t)" by (cases c) auto
  with snoc.prems have "\<not> p" by simp
  with c have "last_progress_time (record_call (record_all m cs) c) = last_progress_time (record_all m cs)"
    by (simp add: record_action_def Let_def)
  with snoc show ?case by (simp add: record_all_snoc)
qed

text \<open>
  C10. A fresh monitor takes the construction time as its last-progress time. As long as no
  recorded call was flagged as progress, \<^verbatim>\<open>check_watchdog\<close> is false while fewer than 1800
  seconds have passed since construction, and when it is true more than 1800 seconds have
  passed; once more than 1800 seconds have passed it is true.
\<close>

theorem fresh_monitor_watchdog:
  assumes "\<forall>c \<in> set cs. \<not> fst (snd c)"
  shows "last_progress_time (init_monitor t0) = t0 \<and>
         (now - t0 < 1800 \<longrightarrow> \<not> check_watchdog (record_all (init_monitor t0) cs) now) \<and>
         (check_watchdog (record_all (init_monitor t0) cs) now \<longrightarrow> now - t0 > 1800) \<and>
         (now - t0 > 1800 \<longrightarrow> check_watchdog (record_all (init_monitor t0) cs) now)"
proof -
  have "last_progress_time (record_all (init_monitor t0) cs) = t0"
    using last_progress_time_no_progress [OF assms, of "init_monitor t0"]
    by (simp add: init_monitor_def)
  then show ?thesis by (simp add: check_watchdog_def watchdog_timeout_def init_monitor_def)
qed

theorem fresh_monitor_watchdog_witness:
  "\<not> check_watchdog (record_all (init_monitor 100) [(''read_file(a)'', False, 500, 700), (''read_file(b)'', False, 20, 1500)]) 1899 \<and>
   check_watchdog (record_all (init_monitor 100) [(''read_file(a)'', False, 500, 700), (''read_file(b)'', False, 20, 1500)]) 1901"
  using
    fresh_monitor_watchdog [where cs = "[(''read_file(a)'', False, 500, 700),
      (''read_file(b)'', False, 20, 1500)]" and ?t0.0 = 100 and now = 1899]
    fresh_monitor_watchdog [where cs = "[(''read_file(a)'', False, 500, 700),
      (''read_file(b)'', False, 20, 1500)]" and ?t0.0 = 100 and now = 1901]
  by simp

section \<open>Properties of the StateManager\<close>

subsection \<open>Action history and counters\<close>

lemma state_recent_actions_add_action:
  "state_recent_actions (add_action s a r t) = last20 (state_recent_actions s @ [new_entry a r t])"
  by (simp add: add_action_def Let_def last20_def)

lemma total_actions_add_action:
  "total_actions (add_action s a r t) = total_actions s + 1"
  by (simp add: add_action_def Let_def)

lemma total_actions_add_calls:
  "total_actions (foldl add_call s cs) = total_actions s + int (length cs)"
proof (induction cs arbitrary: s)
  case Nil
  show ?case by simp
next
  case (Cons c cs)
  obtain a r t where c: "c = (a, r, t)" by (cases c) auto
  show ?case by (simp add: Cons.IH c total_actions_add_action)
qed

lemma history_bounded_add_calls:
  "length (state_recent_actions (foldl add_call (add_action s a r t) cs)) \<le> 20"
proof (induction cs rule: rev_induct)
  case Nil
  show ?case by (simp add: state_recent_actions_add_action last20_def)
next
  case (snoc c cs)
  obtain a' r' t' where c: "c = (a', r', t')" by (cases c) auto
  show ?case by (simp add: c state_recent_actions_add_action last20_def)
qed

text \<open>
  C4. After \<^verbatim>\<open>add_action\<close> on any state the history has at most twenty entries: it is the
  old history with the new entry appended, cut from the front, so the oldest entries go
  first. \<^verbatim>\<open>total_actions\<close> is one greater after each call, hence greater by the number of
  calls after a run of calls, and the bound on the history holds after every further call.
\<close>

theorem add_action_history:
  "length (state_recent_actions (add_action s a r t)) \<le> 20 \<and>
   state_recent_actions (add_action s a r t)
     = drop (length (state_recent_actions s) + 1 - 20) (state_recent_actions s @ [new_entry a r t]) \<and>
   total_actions (add_action s a r t) = total_actions s + 1 \<and>
   length (state_recent_actions (foldl add_call (add_action s a r t) cs)) \<le> 20 \<and>
   total_actions (foldl add_call s cs) = total_actions s + int (length cs)"
  by (simp add: state_recent_actions_add_action last20_def total_actions_add_action
      history_bounded_add_calls total_actions_add_calls)

text \<open>
  C5. \<^verbatim>\<open>should_reflect\<close> holds exactly when \<^verbatim>\<open>actions_since_reflection\<close> is at least 10;
  \<^verbatim>\<open>mark_reflection\<close> sets the counter to 0 and \<^verbatim>\<open>last_reflection\<close> to the current time.
\<close>

theorem reflection_counter:
  "should_reflect s = (actions_since_reflection s \<ge> 10) \<and>
   actions_since_reflection (mark_reflection s now) = 0 \<and>
   last_reflection (mark_reflection s now) = Some (now @ ''Z'')"
  by (simp add: should_reflect_def mark_reflection_def)

subsection \<open>Memory documents\<close>

text \<open>A text without carriage returns is read back as it was stored.\<close>

lemma read_text_no_CR: "CR \<notin> set X \<Longrightarrow> read_text X = X"
  by (induction X rule: read_text.induct) auto

text \<open>A text that can be encoded is written as it is, and no exception is raised.\<close>

lemma write_text_encodable:
  assumes "list_all encodable X"
  shows "write_text X = (Utf8 X, None)"
  using assms by (simp add: write_text_def)

text \<open>
  Loading succeeds exactly when no file that exists is undecodable, and then it returns the
  map of the four documents.
\<close>

lemma load_memory_documents:
  assumes "goals_file fs \<noteq> Some Not_utf8" and "progress_file fs \<noteq> Some Not_utf8"
    and "decisions_file fs \<noteq> Some Not_utf8" and "blockers_file fs \<noteq> Some Not_utf8"
  shows "load_memory (Some fs) = Inr (documents fs)"
  using assms
  by (auto simp: load_memory_def load_file_def read_file_def documents_def decoded_def
      fun_eq_iff split: option.splits file_data.splits)

lemma load_memory_Inr:
  assumes "load_memory (Some fs) = Inr m"
  shows "m = documents fs"
proof -
  from assms have "goals_file fs \<noteq> Some Not_utf8" and "progress_file fs \<noteq> Some Not_utf8"
    and "decisions_file fs \<noteq> Some Not_utf8" and "blockers_file fs \<noteq> Some Not_utf8"
    by (auto simp: load_memory_def load_file_def read_file_def
        split: option.splits file_data.splits sum.splits)
  then have "load_memory (Some fs) = Inr (documents fs)" by (rule load_memory_documents)
  with assms show ?thesis by simp
qed

lemma documents_update:
  "documents (fs\<lparr>goals_file := Some (Utf8 X)\<rparr>) = (documents fs)(''goals'' \<mapsto> read_text X)"
  "documents (fs\<lparr>progress_file := Some (Utf8 X)\<rparr>) = (documents fs)(''progress'' \<mapsto> read_text X)"
  "documents (fs\<lparr>decisions_file := Some (Utf8 X)\<rparr>)
     = (documents fs)(''decisions'' \<mapsto> read_text X)"
  "documents (fs\<lparr>blockers_file := Some (Utf8 X)\<rparr>) = (documents fs)(''blockers'' \<mapsto> read_text X)"
  by (auto simp: documents_def decoded_def fun_eq_iff)

text \<open>The update itself, for a content that can be encoded.\<close>

lemma update_memory_file_encodable:
  assumes "list_all encodable X"
  shows "update_memory_file (Some fs) ''goals'' X
           = (Some (fs\<lparr>goals_file := Some (Utf8 X)\<rparr>), None)"
    and "update_memory_file (Some fs) ''progress'' X
           = (Some (fs\<lparr>progress_file := Some (Utf8 X)\<rparr>), None)"
    and "update_memory_file (Some fs) ''decisions'' X
           = (Some (fs\<lparr>decisions_file := Some (Utf8 X)\<rparr>), None)"
    and "update_memory_file (Some fs) ''blockers'' X
           = (Some (fs\<lparr>blockers_file := Some (Utf8 X)\<rparr>), None)"
  using assms by (simp_all add: update_memory_file_def write_text_def)

lemma round_trip_step:
  assumes upd: "update_memory_file (Some fs) file_type X = (Some fs', None)"
    and load: "load_memory (Some fs') = Inr (documents fs')"
    and docs: "documents fs' = (documents fs)(file_type \<mapsto> read_text X)"
  shows "\<exists>fs' m'. update_memory_file (Some fs) file_type X = (Some fs', None) \<and>
           load_memory (Some fs') = Inr m' \<and>
           m' file_type = Some (read_text X) \<and>
           (CR \<notin> set X \<longrightarrow> m' file_type = Some X) \<and>
           (\<forall>m. load_memory (Some fs) = Inr m \<longrightarrow> m' = m(file_type \<mapsto> read_text X))"
proof -
  have "documents fs' file_type = Some (read_text X)" by (simp add: docs)
  moreover have "CR \<notin> set X \<longrightarrow> documents fs' file_type = Some X"
    by (simp add: docs read_text_no_CR)
  moreover have "\<forall>m. load_memory (Some fs) = Inr m
      \<longrightarrow> documents fs' = m(file_type \<mapsto> read_text X)"
    using load_memory_Inr docs by auto
  ultimately show ?thesis using upd load by blast
qed

text \<open>
  C9, as stated, asks that \<^verbatim>\<open>update_memory_file("goals", X)\<close> followed by
  \<^verbatim>\<open>load_memory()\<close> gives back \<open>X\<close> and the other documents for every content and every
  prior configuration. Four cases where it does not: a content with a carriage return is
  read back with a line feed in its place; a content with a lone surrogate cannot be
  encoded, so that the update raises and leaves the file empty; with another document that
  is not valid UTF-8, loading raises after the update; and without the memory directory
  the update raises.
\<close>

theorem memory_round_trip_counterexample:
  "update_memory_file
     (Some \<lparr>goals_file = None, progress_file = None, decisions_file = None,
            blockers_file = None\<rparr>) ''goals'' [97, 13, 98]
   = (Some \<lparr>goals_file = Some (Utf8 [97, 13, 98]), progress_file = None,
             decisions_file = None, blockers_file = None\<rparr>, None) \<and>
   memory_entry
     (load_memory
        (Some \<lparr>goals_file = Some (Utf8 [97, 13, 98]), progress_file = None,
               decisions_file = None, blockers_file = None\<rparr>)) ''goals''
   = Inr (Some [97, 10, 98]) \<and>
   update_memory_file
     (Some \<lparr>goals_file = Some (Utf8 [111, 108, 100]), progress_file = None,
            decisions_file = None, blockers_file = None\<rparr>) ''goals'' [97, 0xD800]
   = (Some \<lparr>goals_file = Some (Utf8 []), progress_file = None, decisions_file = None,
             blockers_file = None\<rparr>, Some UnicodeEncodeError) \<and>
   update_memory_file
     (Some \<lparr>goals_file = None, progress_file = Some Not_utf8, decisions_file = None,
            blockers_file = None\<rparr>) ''goals'' [97]
   = (Some \<lparr>goals_file = Some (Utf8 [97]), progress_file = Some Not_utf8,
             decisions_file = None, blockers_file = None\<rparr>, None) \<and>
   load_memory
     (Some \<lparr>goals_file = Some (Utf8 [97]), progress_file = Some Not_utf8,
            decisions_file = None, blockers_file = None\<rparr>)
   = Inl UnicodeDecodeError \<and>
   update_memory_file None ''goals'' [97] = (None, Some FileNotFoundError)"
  by (simp add: update_memory_file_def write_text_def encodable_def load_memory_def
      load_file_def read_file_def memory_entry_def CR_def LF_def)

text \<open>
  C9, amended. Let the memory directory exist, let \<open>X\<close> be a content that UTF-8 can
  encode, and let the documents of the three other kinds, where present, be valid UTF-8.
  Then for each of the four kinds \<^verbatim>\<open>update_memory_file(kind, X)\<close> raises nothing and
  \<^verbatim>\<open>load_memory()\<close> then returns a map whose entry of that kind is \<open>X\<close> as a text-mode read
  returns it, which is \<open>X\<close> itself when \<open>X\<close> has no carriage return; and whenever
  \<^verbatim>\<open>load_memory()\<close> returned a map before the update, the new map is that map with this one
  entry set, so that the other three entries, present or absent, are unchanged.
\<close>

theorem memory_round_trip:
  assumes kind: "file_type \<in> {''goals'', ''progress'', ''decisions'', ''blockers''}"
    and enc: "list_all encodable X"
    and others: "others_decodable fs file_type"
  shows "\<exists>fs' m'. update_memory_file (Some fs) file_type X = (Some fs', None) \<and>
           load_memory (Some fs') = Inr m' \<and>
           m' file_type = Some (read_text X) \<and>
           (CR \<notin> set X \<longrightarrow> m' file_type = Some X) \<and>
           (\<forall>m. load_memory (Some fs) = Inr m \<longrightarrow> m' = m(file_type \<mapsto> read_text X))"
proof -
  consider "file_type = ''goals''" | "file_type = ''progress''" | "file_type = ''decisions''"
    | "file_type = ''blockers''" using kind by auto
  then show ?thesis
  proof cases
    case 1
    let ?fs' = "fs\<lparr>goals_file := Some (Utf8 X)\<rparr>"
    from others 1 have "load_memory (Some ?fs') = Inr (documents ?fs')"
      by (intro load_memory_documents) (simp_all add: others_decodable_def)
    with 1 show ?thesis
      using round_trip_step [of fs file_type X ?fs']
      by (simp add: update_memory_file_encodable [OF enc] documents_update)
  next
    case 2
    let ?fs' = "fs\<lparr>progress_file := Some (Utf8 X)\<rparr>"
    from others 2 have "load_memory (Some ?fs') = Inr (documents ?fs')"
      by (intro load_memory_documents) (simp_all add: others_decodable_def)
    with 2 show ?thesis
      using round_trip_step [of fs file_type X ?fs']
      by (simp add: update_memory_file_encodable [OF enc] documents_update)
  next
    case 3
    let ?fs' = "fs\<lparr>decisions_file := Some (Utf8 X)\<rparr>"
    from others 3 have "load_memory (Some ?fs') = Inr (documents ?fs')"
      by (intro load_memory_documents) (simp_all add: others_decodable_def)
    with 3 show ?thesis
      using round_trip_step [of fs file_type X ?fs']
      by (simp add: update_memory_file_encodable [OF enc] documents_update)
  next
    case 4
    let ?fs' = "fs\<lparr>blockers_file := Some (Utf8 X)\<rparr>"
    from others 4 have "load_memory (Some ?fs') = Inr (documents ?fs')"
      by (intro load_memory_documents) (simp_all add: others_decodable_def)
    with 4 show ?thesis
      using round_trip_step [of fs file_type X ?fs']
      by (simp add: update_memory_file_encodable [OF enc] documents_update)
  qed
qed

theorem memory_round_trip_witness:
  "\<exists>fs' m'. update_memory_file
              (Some \<lparr>goals_file = Some (Utf8 [103, 111]), progress_file = None,
                     decisions_file = Some (Utf8 []), blockers_file = None\<rparr>)
              ''progress'' [100, 111, 110, 101, 10] = (Some fs', None) \<and>
         load_memory (Some fs') = Inr m' \<and>
         m' ''progress'' = Some [100, 111, 110, 101, 10] \<and>
         m' ''goals'' = Some [103, 111] \<and>
         m' ''decisions'' = Some [] \<and>
         m' ''blockers'' = None"
proof -
  let ?fs = "\<lparr>goals_file = Some (Utf8 [103, 111]), progress_file = None,
              decisions_file = Some (Utf8 []), blockers_file = None\<rparr>"
  have kind: "''progress'' \<in> {''goals'', ''progress'', ''decisions'', ''blockers''}" by simp
  have enc: "list_all encodable [100, 111, 110, 101, 10]" by (simp add: encodable_def)
  have others: "others_decodable ?fs ''progress''" by (simp add: others_decodable_def)
  have before: "load_memory (Some ?fs) = Inr (documents ?fs)"
    by (rule load_memory_documents) simp_all
  have cr: "CR \<notin> set [100, 111, 110, 101, 10]" by (simp add: CR_def)
  from memory_round_trip [OF kind enc others] cr obtain fs' m'
    where upd: "update_memory_file (Some ?fs) ''progress'' [100, 111, 110, 101, 10]
        = (Some fs', None)"
      and load: "load_memory (Some fs') = Inr m'"
      and entry: "m' ''progress'' = Some [100, 111, 110, 101, 10]"
      and rest: "\<forall>m. load_memory (Some ?fs) = Inr m
          \<longrightarrow> m' = m(''progress'' \<mapsto> read_text [100, 111, 110, 101, 10])"
    by blast
  from rest before have "m' = (documents ?fs)(''progress'' \<mapsto> read_text [100, 111, 110, 101, 10])"
    by blast
  then have "m' ''goals'' = Some [103, 111]" and "m' ''decisions'' = Some []"
    and "m' ''blockers'' = None"
    by (simp_all add: documents_def decoded_def CR_def LF_def)
  with upd load entry show ?thesis by blast
qed

section \<open>Properties of the control loop\<close>

lemma last_last20_snoc: "last (last20 (xs @ [x])) = x"
proof -
  have "length (xs @ [x]) - 20 < length (xs @ [x])" by simp
  then have "last (drop (length (xs @ [x]) - 20) (xs @ [x])) = last (xs @ [x])"
    by (rule last_drop)
  then show ?thesis by (simp add: last20_def)
qed

lemma last_entry_add_action:
  "last (state_recent_actions (add_action s a r t)) = new_entry a r t"
  by (simp add: state_recent_actions_add_action last_last20_snoc)

text \<open>The entry written by the handler.\<close>

lemma handle_exception_entry:
  "last (state_recent_actions (handle_exception s e now))
     = \<lparr>timestamp = now @ ''Z'', action = ''error'', success = False,
        summary = ''Error: '' @ e\<rparr>"
  by (simp add: handle_exception_def last_entry_add_action new_entry_def error_result_def
      get_default_def)

text \<open>
  An exception raised inside a tool does not reach the loop: \<^verbatim>\<open>_execute_tool\<close> returns a
  failed result, which is recorded under the descriptor of the call.
\<close>

lemma tool_exception_entry:
  assumes "tool_outcome s = Inl e"
  shows "last (state_recent_actions (record_step state s))
           = \<lparr>timestamp = step_stamp s @ ''Z'',
              action = function_name s @ ''('' @ function_args s @ '')'',
              success = False, summary = ''Tool execution failed: '' @ e\<rparr>"
  using assms
  by (simp add: record_step_def execute_tool_def last_entry_add_action new_entry_def
      get_default_def)

text \<open>
  C7, as stated, asks that every exception raised while a tool is dispatched be recorded
  under the descriptor \<^verbatim>\<open>error\<close>. In a session of one iteration whose only tool call raises,
  the history holds one entry, under the descriptor of the call.
\<close>

theorem tool_exception_counterexample:
  "map (\<lambda>entry. (action entry, success entry, summary entry))
     (state_recent_actions (fst
        (run_from
           (\<lambda>i. \<lparr>reflect_stamp = ''r'',
                 steps = [\<lparr>function_name = ''read_file'', function_args = ''{}'',
                           tool_outcome = Inl ''boom'', step_stamp = ''t''\<rparr>],
                 raised = None, error_stamp = ''u''\<rparr>)
           1 0 True (create_initial_state ''/w/project'' ''n'' ''n'') [])))
   = [(''read_file({})'', False, ''Tool execution failed: boom'')]"
  by (simp add: run_from.simps [where iteration = 0] run_from.simps [where iteration = 1]
      reflect_def should_reflect_def create_initial_state_def record_step_def
      execute_tool_def add_action_def new_entry_def get_default_def last20_def)

text \<open>
  C7, amended. In an iteration of the loop in which an exception other than a user interrupt
  leaves the body of the \<^verbatim>\<open>try\<close>, the handler records an entry with the descriptor
  \<^verbatim>\<open>error\<close>, the failure flag and the text of the exception, the state is written to disk,
  and the loop goes on from its head with the next iteration, still running.
\<close>

theorem iteration_exception_recorded:
  assumes "iteration < max_iterations"
    and "raised (env (iteration + 1)) = Some (Exception e)"
  shows
    "(let ev = env (iteration + 1);
          before = foldl record_step (reflect state (reflect_stamp ev)) (steps ev);
          state' = add_action before ''error''
                     \<lparr>result_success = Some False, result_summary = Some (''Error: '' @ e)\<rparr>
                     (error_stamp ev)
      in run_from env max_iterations iteration True state saved
           = run_from env max_iterations (iteration + 1) True state' (saved @ [state']) \<and>
         last (state_recent_actions state')
           = \<lparr>timestamp = error_stamp ev @ ''Z'', action = ''error'', success = False,
              summary = ''Error: '' @ e\<rparr> \<and>
         total_actions state' = total_actions before + 1)"
proof -
  let ?ev = "env (iteration + 1)"
  let ?before = "foldl record_step (reflect state (reflect_stamp ?ev)) (steps ?ev)"
  have step: "run_from env max_iterations iteration True state saved
      = run_from env max_iterations (iteration + 1) True
          (handle_exception ?before e (error_stamp ?ev))
          (saved @ [handle_exception ?before e (error_stamp ?ev)])"
    using assms by (subst run_from.simps) (simp add: Let_def)
  have entry: "last (state_recent_actions (handle_exception ?before e (error_stamp ?ev)))
      = \<lparr>timestamp = error_stamp ?ev @ ''Z'', action = ''error'', success = False,
         summary = ''Error: '' @ e\<rparr>"
    by (rule handle_exception_entry)
  have count: "total_actions (handle_exception ?before e (error_stamp ?ev))
      = total_actions ?before + 1"
    by (simp add: handle_exception_def total_actions_add_action)
  from step entry count show ?thesis
    by (simp add: Let_def handle_exception_def error_result_def)
qed

theorem iteration_exception_recorded_witness:
  "run_from
     (\<lambda>i. \<lparr>reflect_stamp = ''r'', steps = [], raised = Some (Exception ''timeout''),
           error_stamp = ''t''\<rparr>)
     1 0 True (create_initial_state ''/w/project'' ''n'' ''n'') []
   = ((create_initial_state ''/w/project'' ''n'' ''n'')
        \<lparr>state_recent_actions :=
           [\<lparr>timestamp = ''tZ'', action = ''error'', success = False,
             summary = ''Error: timeout''\<rparr>],
         total_actions := 1, actions_since_reflection := 1\<rparr>,
      [(create_initial_state ''/w/project'' ''n'' ''n'')
        \<lparr>state_recent_actions :=
           [\<lparr>timestamp = ''tZ'', action = ''error'', success = False,
             summary = ''Error: timeout''\<rparr>],
         total_actions := 1, actions_since_reflection := 1\<rparr>])"
  using iteration_exception_recorded [where iteration = 0 and max_iterations = 1
      and e = "''timeout''" and state = "create_initial_state ''/w/project'' ''n'' ''n''"
      and saved = "[]"
      and env = "\<lambda>i. \<lparr>reflect_stamp = ''r'', steps = [], raised = Some (Exception ''timeout''),
           error_stamp = ''t''\<rparr>"]
  by (simp add: Let_def run_from.simps [where iteration = 1] reflect_def should_reflect_def
      create_initial_state_def add_action_def new_entry_def get_default_def last20_def)

section \<open>Properties of the ContinuousRunner\<close>

text \<open>
  C3, as stated, asks for at least one session under a budget of zero hours. With a budget
  of zero the end time is the start time, and the first test of the loop condition, made
  at the start time or later, already fails.
\<close>

theorem zero_budget_counterexample:
  "map_option sessions_started
     (run_continuous ''goal'' 0 1000 ''s''
        [\<lparr>loop_clock = 1000, session_body = Inr 5, session_time = 60, session_stamp = ''t'',
          state_file = Phase_read None\<rparr>] ''e'' 1000)
   = Some 0"
  by (simp add: run_continuous_def initial_stats_def Let_def)

text \<open>
  C3, amended. Under a budget of zero hours, and with a clock that does not run backwards
  between the start and the first test of the loop condition, \<^verbatim>\<open>run_continuous\<close> returns
  without having run a session: the loop is left by the duration check, and the only
  statistics written are the final ones, with no session completed or failed.
\<close>

theorem zero_budget_runs_no_session:
  assumes "start_time \<le> loop_clock ev"
  shows "run_continuous g 0 start_time started (ev # evs) ended final_clock
           = Some \<lparr>halted_by = Duration_reached,
                   stats_of = (initial_stats g 0 started)
                     \<lparr>ended_at := Some (ended @ ''Z''),
                      total_runtime := final_clock - start_time\<rparr>,
                   saved_stats = [(initial_stats g 0 started)
                     \<lparr>ended_at := Some (ended @ ''Z''),
                      total_runtime := final_clock - start_time\<rparr>],
                   sessions_started = 0\<rparr>"
  using assms by (simp add: run_continuous_def Let_def)

theorem zero_budget_runs_no_session_witness:
  "map_option (\<lambda>r. (halted_by r, sessions_started r, sessions_completed (stats_of r),
       sessions_failed (stats_of r), length (saved_stats r)))
     (run_continuous ''goal'' 0 1000 ''s''
        [\<lparr>loop_clock = 1000.5, session_body = Inr 5, session_time = 60, session_stamp = ''t'',
          state_file = Phase_read None\<rparr>] ''e'' 1001)
   = Some (Duration_reached, 0, 0, 0, 1)"
  using zero_budget_runs_no_session [where start_time = 1000 and g = "''goal''"
      and started = "''s''" and ended = "''e''" and final_clock = 1001 and evs = "[]"
      and ev = "\<lparr>loop_clock = 1000.5, session_body = Inr 5, session_time = 60,
          session_stamp = ''t'', state_file = Phase_read None\<rparr>"]
  by (simp add: initial_stats_def)

text \<open>The statistics after a session that failed with the exception text \<open>e\<close>.\<close>

lemma update_after_failure:
  "update_after_session stats
     \<lparr>sr_success = False, sr_duration = d, sr_total_actions = 0, sr_error = Some e\<rparr> now
   = stats\<lparr>sessions_failed := sessions_failed stats + 1,
           errors := errors stats @ [(now @ ''Z'', Some e)],
           total_runtime := total_runtime stats + d\<rparr>"
  by (simp add: update_after_session_def)

text \<open>
  When a session is started and an exception other than a user interrupt leaves it, the
  supervisor adds one to \<^verbatim>\<open>sessions_failed\<close>, appends the text of the exception to the error
  log, adds the duration of the session to the runtime and writes the statistics. What
  follows depends on the check of the state file. When the check gives a phase, the loop
  goes on from its head unless the phase is \<^verbatim>\<open>complete\<close>; when the check raises, the
  exception leaves \<^verbatim>\<open>run_continuous\<close>.
\<close>

lemma failed_session_recorded:
  assumes "loop_clock ev < end_time"
    and "session_body ev = Inl (Exception e)"
  shows
    "supervise end_time stats saved n (ev # evs)
       = (let stats' = stats\<lparr>sessions_failed := sessions_failed stats + 1,
                             errors := errors stats @ [(session_stamp ev @ ''Z'', Some e)],
                             total_runtime := total_runtime stats + session_time ev\<rparr>
          in case state_file ev of
               Check_raised x \<Rightarrow>
                 Some \<lparr>halted_by = Aborted x, stats_of = stats',
                       saved_stats = saved @ [stats'], sessions_started = n + 1\<rparr>
             | Phase_read phase \<Rightarrow>
                 if phase = Some ''complete'' then
                   Some \<lparr>halted_by = Goal_complete, stats_of = stats',
                         saved_stats = saved @ [stats'], sessions_started = n + 1\<rparr>
                 else supervise end_time stats' (saved @ [stats']) (n + 1) evs)"
  using assms by (simp add: run_session_def update_after_failure Let_def)

lemma failed_session_continues_if_state_readable:
  assumes "loop_clock ev < end_time"
    and "session_body ev = Inl (Exception e)"
    and "state_file ev = Phase_read phase"
    and "phase \<noteq> Some ''complete''"
  shows
    "supervise end_time stats saved n (ev # evs)
       = (let stats' = stats\<lparr>sessions_failed := sessions_failed stats + 1,
                             errors := errors stats @ [(session_stamp ev @ ''Z'', Some e)],
                             total_runtime := total_runtime stats + session_time ev\<rparr>
          in supervise end_time stats' (saved @ [stats']) (n + 1) evs)"
  using failed_session_recorded [OF assms(1,2), of stats saved n evs] assms(3,4)
  by (simp add: Let_def del: supervise.simps)

text \<open>
  Failures of sessions have no influence on when and why the run ends: replacing every
  failed session of the environment by one that returns leaves the reason and the number of
  sessions started as they were.
\<close>

lemma recovered_fields [simp]:
  "loop_clock (recovered ev) = loop_clock ev"
  "state_file (recovered ev) = state_file ev"
  by (simp_all add: recovered_def split: sum.splits exception.splits)

lemma run_session_recovered:
  "run_session (recovered ev) = Inl x \<longleftrightarrow> run_session ev = Inl x"
  by (auto simp: recovered_def run_session_def split: sum.splits exception.splits)

lemma failures_do_not_end_the_run:
  "map_option (\<lambda>r. (halted_by r, sessions_started r)) (supervise end_time stats saved n evs)
   = map_option (\<lambda>r. (halted_by r, sessions_started r))
       (supervise end_time stats2 saved2 n (map recovered evs))"
proof (induction evs arbitrary: stats saved stats2 saved2 n)
  case Nil
  show ?case by simp
next
  case (Cons ev evs)
  show ?case
  proof (cases "loop_clock ev < end_time")
    case False
    then show ?thesis by simp
  next
    case True
    show ?thesis
    proof (cases "run_session ev")
      case (Inl x)
      then have "run_session (recovered ev) = Inl x" by (simp add: run_session_recovered)
      with Inl True show ?thesis by simp
    next
      case (Inr result)
      then obtain result2 where r2: "run_session (recovered ev) = Inr result2"
        by (cases "run_session (recovered ev)") (simp_all add: run_session_recovered)
      show ?thesis
      proof (cases "state_file ev")
        case (Check_raised x)
        with Inr r2 True show ?thesis by (simp add: Let_def)
      next
        case (Phase_read phase)
        show ?thesis
        proof (cases "phase = Some ''complete''")
          case complete: True
          with Phase_read Inr r2 True show ?thesis by (simp add: Let_def)
        next
          case False
          with Phase_read Inr r2 True show ?thesis by (simp add: Let_def Cons.IH)
        qed
      qed
    qed
  qed
qed

text \<open>
  C8. A session whose ControlLoop raises is to be recorded as failed, and the supervisor is
  to go on with the next session until the budget or the completion marker ends the run.
  The failure is recorded (\<open>failed_session_recorded\<close>), and the run goes on when the state
  file can then be read (\<open>failed_session_continues_if_state_readable\<close>). But the check of
  the state file is not guarded. With a state file that is empty, \<^verbatim>\<open>load_state\<close> makes the
  first session fail with the error of \<^verbatim>\<open>json.load\<close>; the supervisor records the failure and
  then fails on the same file itself: under a budget of 24 hours the run is left by that
  exception after one session, one second after its start, and the second session of the
  environment is never started.
\<close>

theorem failed_session_aborts_on_corrupt_state_file:
  "map_option halted_by
     (run_continuous ''goal'' 24 0 ''s''
        [\<lparr>loop_clock = 1,
          session_body = Inl (Exception ''Expecting value: line 1 column 1 (char 0)''),
          session_time = 1, session_stamp = ''t1'',
          state_file = Check_raised ''Expecting value: line 1 column 1 (char 0)''\<rparr>,
         \<lparr>loop_clock = 20, session_body = Inr 3, session_time = 5, session_stamp = ''t2'',
          state_file = Phase_read (Some ''running'')\<rparr>] ''e'' 3)
   = Some (Aborted ''Expecting value: line 1 column 1 (char 0)'') \<and>
   map_option sessions_started
     (run_continuous ''goal'' 24 0 ''s''
        [\<lparr>loop_clock = 1,
          session_body = Inl (Exception ''Expecting value: line 1 column 1 (char 0)''),
          session_time = 1, session_stamp = ''t1'',
          state_file = Check_raised ''Expecting value: line 1 column 1 (char 0)''\<rparr>,
         \<lparr>loop_clock = 20, session_body = Inr 3, session_time = 5, session_stamp = ''t2'',
          state_file = Phase_read (Some ''running'')\<rparr>] ''e'' 3)
   = Some 1"
  by (simp add: run_continuous_def initial_stats_def Let_def run_session_def
      update_after_session_def)

end
